theory Spec2Isabelle
  imports Main
begin

unbundle bit_operations_syntax

section \<open>Don't-care mask synthesis: \<open>generate_test_vector\<close>\<close>

text \<open>
  The source builds a list \<open>test\<close> of one-character strings, rewrites entries by index
  and joins them. Every entry is a single character, so the list is modelled as a
  \<open>string\<close> and the final join is the identity. Python's unbounded integers are \<open>int\<close>;
  \<open>range n\<close> is empty for \<open>n \<le> 0\<close>, which is what \<open>[0..<nat n]\<close> gives.

  \<^verbatim>\<open>
  test = ['?'] * len(values)
  for i in range(min(warmup_ticks, len(values))):
      test[i] = 'x'
  for i in range(1, len(values)):
      if values[i] != values[i-1]:
          for j in range(stability_ticks):
              if i + j < len(values):
                  test[i + j] = 'x'
  return ''.join(test)
  \<close>
\<close>

definition mark_window :: "nat \<Rightarrow> int \<Rightarrow> nat \<Rightarrow> string \<Rightarrow> string" where
  \<comment> \<open>the inner loop over \<open>j\<close>, for the transition at \<open>i\<close>; \<open>n\<close> is \<open>len(values)\<close>\<close>
  "mark_window i stability_ticks n test =
     fold (\<lambda>j test. if i + j < n then test[i + j := CHR ''x''] else test)
          [0..<nat stability_ticks] test"

definition mark_warmup :: "int \<Rightarrow> nat \<Rightarrow> string \<Rightarrow> string" where
  \<comment> \<open>the warm-up loop\<close>
  "mark_warmup warmup_ticks n test =
     fold (\<lambda>i test. test[i := CHR ''x'']) [0..<nat (min warmup_ticks (int n))] test"

definition mark_transitions :: "int list \<Rightarrow> int \<Rightarrow> string \<Rightarrow> string" where
  \<comment> \<open>the loop over \<open>i\<close> in \<open>range(1, len(values))\<close>; it reads \<open>values\<close>, never \<open>test\<close>\<close>
  "mark_transitions values stability_ticks test =
     fold (\<lambda>i test. if values ! i \<noteq> values ! (i - 1)
                      then mark_window i stability_ticks (length values) test else test)
          [1..<length values] test"

definition generate_test_vector :: "int list \<Rightarrow> int \<Rightarrow> int \<Rightarrow> string" where
  "generate_test_vector values stability_ticks warmup_ticks =
     mark_transitions values stability_ticks
       (mark_warmup warmup_ticks (length values)
          (replicate (length values) CHR ''?''))"

text \<open>The transition indices of a waveform, and the ticks one transition's window covers.\<close>

definition transitions :: "int list \<Rightarrow> nat list" where
  "transitions values = filter (\<lambda>i. values ! i \<noteq> values ! (i - 1)) [1..<length values]"

definition in_window :: "nat \<Rightarrow> int \<Rightarrow> nat \<Rightarrow> bool" where
  "in_window i stability_ticks k \<longleftrightarrow> i \<le> k \<and> int k < int i + stability_ticks"

section \<open>Python values, faults and loops\<close>

text \<open>
  A simulation function receives \<open>inputs\<close>, a dict from signal names to lists of
  integers, and a tick count. Reading \<open>inputs[name][t]\<close> raises \<open>KeyError\<close> when the
  name is absent and \<open>IndexError\<close> when the list is too short. Faults are values:
  a computation returns \<open>Inl\<close> of the exception or \<open>Inr\<close> of its result. \<open>TypeError\<close>
  is what comparing \<open>None\<close> with a number raises.
\<close>

datatype py_error = KeyError string | IndexError | TypeError

definition bindE :: "py_error + 'a \<Rightarrow> ('a \<Rightarrow> py_error + 'b) \<Rightarrow> py_error + 'b" where
  "bindE m f = (case m of Inl e \<Rightarrow> Inl e | Inr x \<Rightarrow> f x)"

fun mapE :: "('a \<Rightarrow> py_error + 'b) \<Rightarrow> 'a list \<Rightarrow> py_error + 'b list" where
  \<comment> \<open>a list comprehension whose element expression may raise\<close>
  "mapE f [] = Inr []"
| "mapE f (x # xs) = bindE (f x) (\<lambda>y. bindE (mapE f xs) (\<lambda>ys. Inr (y # ys)))"

fun forE :: "('s \<Rightarrow> 'a \<Rightarrow> py_error + 's) \<Rightarrow> 'a list \<Rightarrow> 's \<Rightarrow> py_error + 's" where
  \<comment> \<open>a \<open>for\<close> loop over a list, threading the loop's variables; a raise leaves the loop\<close>
  "forE body [] s = Inr s"
| "forE body (x # xs) s = bindE (body s x) (forE body xs)"

definition ticks :: "int \<Rightarrow> nat list" where
  \<comment> \<open>\<open>range(n_ticks)\<close>\<close>
  "ticks n_ticks = [0..<nat n_ticks]"

definition zeros :: "int \<Rightarrow> int list" where
  \<comment> \<open>\<open>[0] * n_ticks\<close>\<close>
  "zeros n_ticks = replicate (nat n_ticks) 0"

definition truthy :: "int \<Rightarrow> bool" where
  \<comment> \<open>the truth value of an integer in \<open>if\<close>, \<open>and\<close>, \<open>not\<close>\<close>
  "truthy v \<longleftrightarrow> v \<noteq> 0"

definition read_input :: "(string \<rightharpoonup> int list) \<Rightarrow> string \<Rightarrow> nat \<Rightarrow> py_error + int" where
  \<comment> \<open>\<open>inputs[name][t]\<close> for \<open>t \<ge> 0\<close>\<close>
  "read_input inputs name t =
     (case inputs name of
        None \<Rightarrow> Inl (KeyError name)
      | Some xs \<Rightarrow> if t < length xs then Inr (xs ! t) else Inl IndexError)"

definition py_index :: "'a list \<Rightarrow> int \<Rightarrow> py_error + 'a" where
  \<comment> \<open>\<open>xs[i]\<close>: an index in \<open>[-len, 0)\<close> counts from the end, anything else out of range raises\<close>
  "py_index xs i =
     (if 0 \<le> i \<and> i < int (length xs) then Inr (xs ! nat i)
      else if - int (length xs) \<le> i \<and> i < 0 then Inr (xs ! nat (int (length xs) + i))
      else Inl IndexError)"

definition py_setitem :: "'a list \<Rightarrow> int \<Rightarrow> 'a \<Rightarrow> py_error + 'a list" where
  \<comment> \<open>\<open>xs[i] = v\<close>, returning the updated list\<close>
  "py_setitem xs i v =
     (if 0 \<le> i \<and> i < int (length xs) then Inr (xs[nat i := v])
      else if - int (length xs) \<le> i \<and> i < 0 then Inr (xs[nat (int (length xs) + i) := v])
      else Inl IndexError)"

section \<open>The simulation functions\<close>

text \<open>
  Each \<open>sim_*\<close> follows its source function: the same reads in the same order (the
  first fault is the one raised), the same loop variables, the same arithmetic. The
  returned dict is an association list in the order of the dict literal.
\<close>

definition sim_cx04 :: "(string \<rightharpoonup> int list) \<Rightarrow> int \<Rightarrow> py_error + (string \<times> int list) list" where
  "sim_cx04 inputs n_ticks =
     bindE (mapE (\<lambda>t. bindE (read_input inputs ''A'' t) (\<lambda>a. Inr (1 - a))) (ticks n_ticks)) (\<lambda>na.
     bindE (mapE (\<lambda>t. bindE (read_input inputs ''B'' t) (\<lambda>b. Inr (1 - b))) (ticks n_ticks)) (\<lambda>nb.
     bindE (mapE (\<lambda>t. bindE (read_input inputs ''C'' t) (\<lambda>c. Inr (1 - c))) (ticks n_ticks)) (\<lambda>nc.
     bindE (mapE (\<lambda>t. bindE (read_input inputs ''D'' t) (\<lambda>d. Inr (1 - d))) (ticks n_ticks)) (\<lambda>nd.
     Inr [(''~A'', na), (''~B'', nb), (''~C'', nc), (''~D'', nd)]))))"

definition read4 :: "(string \<rightharpoonup> int list) \<Rightarrow> string \<Rightarrow> string \<Rightarrow> string \<Rightarrow> string \<Rightarrow>
    (int \<Rightarrow> int \<Rightarrow> int \<Rightarrow> int \<Rightarrow> int) \<Rightarrow> nat \<Rightarrow> py_error + int" where
  \<comment> \<open>\<open>f(inputs[a][t], inputs[b][t], inputs[c][t], inputs[d][t])\<close>, read left to right\<close>
  "read4 inputs a b c d f t =
     bindE (read_input inputs a t) (\<lambda>va.
     bindE (read_input inputs b t) (\<lambda>vb.
     bindE (read_input inputs c t) (\<lambda>vc.
     bindE (read_input inputs d t) (\<lambda>vd. Inr (f va vb vc vd)))))"

definition read2 :: "(string \<rightharpoonup> int list) \<Rightarrow> string \<Rightarrow> string \<Rightarrow>
    (int \<Rightarrow> int \<Rightarrow> int) \<Rightarrow> nat \<Rightarrow> py_error + int" where
  \<comment> \<open>\<open>f(inputs[a][t], inputs[b][t])\<close>, read left to right\<close>
  "read2 inputs a b f t =
     bindE (read_input inputs a t) (\<lambda>va.
     bindE (read_input inputs b t) (\<lambda>vb. Inr (f va vb)))"

definition sim_cx08 :: "(string \<rightharpoonup> int list) \<Rightarrow> int \<Rightarrow> py_error + (string \<times> int list) list" where
  "sim_cx08 inputs n_ticks =
     bindE (mapE (read4 inputs ''A'' ''B'' ''C'' ''D'' (\<lambda>a b c d. a AND b AND c AND d))
              (ticks n_ticks)) (\<lambda>y0.
     bindE (mapE (read4 inputs ''A'' ''B'' ''C'' ''D'' (\<lambda>a b c d. a OR b OR c OR d))
              (ticks n_ticks)) (\<lambda>y1.
     Inr [(''Y0'', y0), (''Y1'', y1)]))"

definition sim_cx02 :: "(string \<rightharpoonup> int list) \<Rightarrow> int \<Rightarrow> py_error + (string \<times> int list) list" where
  "sim_cx02 inputs n_ticks =
     bindE (mapE (read2 inputs ''A'' ''B'' (\<lambda>a b. 1 - (a OR b))) (ticks n_ticks)) (\<lambda>y0.
     bindE (mapE (read2 inputs ''C'' ''D'' (\<lambda>c d. 1 - (c OR d))) (ticks n_ticks)) (\<lambda>y1.
     bindE (mapE (read2 inputs ''E'' ''F'' (\<lambda>e f. 1 - (e OR f))) (ticks n_ticks)) (\<lambda>y2.
     Inr [(''Y0'', y0), (''Y1'', y1), (''Y2'', y2)])))"

definition sim_cx00 :: "(string \<rightharpoonup> int list) \<Rightarrow> int \<Rightarrow> py_error + (string \<times> int list) list" where
  "sim_cx00 inputs n_ticks =
     bindE (mapE (read2 inputs ''A'' ''B'' (\<lambda>a b. 1 - (a AND b))) (ticks n_ticks)) (\<lambda>y0.
     bindE (mapE (read2 inputs ''C'' ''D'' (\<lambda>c d. 1 - (c AND d))) (ticks n_ticks)) (\<lambda>y1.
     bindE (mapE (read2 inputs ''E'' ''F'' (\<lambda>e f. 1 - (e AND f))) (ticks n_ticks)) (\<lambda>y2.
     Inr [(''Y0'', y0), (''Y1'', y1), (''Y2'', y2)])))"

definition sim_cxr01 :: "(string \<rightharpoonup> int list) \<Rightarrow> int \<Rightarrow> py_error + (string \<times> int list) list" where
  "sim_cxr01 inputs n_ticks =
     (let reset_period = 4 in
      Inr [(''~R'', map (\<lambda>t. if t < reset_period then 1 else 0) (ticks n_ticks))])"

definition complement :: "int list \<Rightarrow> int \<Rightarrow> int list" where
  \<comment> \<open>\<open>[1 - q[t] for t in range(n_ticks)]\<close>, where \<open>q\<close> has \<open>n_ticks\<close> entries\<close>
  "complement q n_ticks = map (\<lambda>t. 1 - q ! t) (ticks n_ticks)"

definition cx279_tick :: "(string \<rightharpoonup> int list) \<Rightarrow> int list \<times> int \<Rightarrow> nat \<Rightarrow> py_error + int list \<times> int" where
  "cx279_tick inputs qs t =
     (case qs of (q, state) \<Rightarrow>
      bindE (read_input inputs ''S'' t) (\<lambda>s.
      bindE (read_input inputs ''R'' t) (\<lambda>r.
      let state' = (if truthy s \<and> \<not> truthy r then 1
                    else if truthy r \<and> \<not> truthy s then 0 else state)
      in Inr (q[t := state'], state'))))"

definition sim_cx279 :: "(string \<rightharpoonup> int list) \<Rightarrow> int \<Rightarrow> py_error + (string \<times> int list) list" where
  "sim_cx279 inputs n_ticks =
     bindE (forE (cx279_tick inputs) (ticks n_ticks) (zeros n_ticks, 0)) (\<lambda>(q, state).
     Inr [(''Q'', q), (''~Q'', complement q n_ticks)])"

definition cx279e_tick :: "(string \<rightharpoonup> int list) \<Rightarrow> int list \<times> int \<Rightarrow> nat \<Rightarrow> py_error + int list \<times> int" where
  "cx279e_tick inputs qs t =
     (case qs of (q, state) \<Rightarrow>
      bindE (read_input inputs ''E'' t) (\<lambda>e.
      bindE (read_input inputs ''S'' t) (\<lambda>s.
      bindE (read_input inputs ''R'' t) (\<lambda>r.
      let state' = (if truthy e
                    then (if truthy s \<and> \<not> truthy r then 1
                          else if truthy r \<and> \<not> truthy s then 0 else state)
                    else state)
      in Inr (q[t := state'], state')))))"

definition sim_cx279e :: "(string \<rightharpoonup> int list) \<Rightarrow> int \<Rightarrow> py_error + (string \<times> int list) list" where
  "sim_cx279e inputs n_ticks =
     bindE (forE (cx279e_tick inputs) (ticks n_ticks) (zeros n_ticks, 0)) (\<lambda>(q, state).
     Inr [(''Q'', q), (''~Q'', complement q n_ticks)])"

definition sim_cx556 :: "(string \<rightharpoonup> int list) \<Rightarrow> int \<Rightarrow> py_error + (string \<times> int list) list" where
  "sim_cx556 inputs n_ticks =
     Inr [(''CL1'', map (\<lambda>t. 1 - int ((t div 2) mod 2)) (ticks n_ticks)),
          (''CL2'', map (\<lambda>t. 1 - int ((t div 4) mod 2)) (ticks n_ticks))]"

definition cx74_tick :: "(string \<rightharpoonup> int list) \<Rightarrow> int list \<times> int \<times> int \<Rightarrow> nat \<Rightarrow>
    py_error + int list \<times> int \<times> int" where
  \<comment> \<open>one iteration; the loop variables are \<open>(q, state, prev_clk)\<close>\<close>
  "cx74_tick inputs qsp t =
     (case qsp of (q, state, prev_clk) \<Rightarrow>
      bindE (read_input inputs ''CLK'' t) (\<lambda>clk.
      bindE (read_input inputs ''D'' t) (\<lambda>d.
      let state' = (if truthy clk \<and> \<not> truthy prev_clk then d else state)
      in Inr (q[t := state'], state', clk))))"

definition sim_cx74 :: "(string \<rightharpoonup> int list) \<Rightarrow> int \<Rightarrow> py_error + (string \<times> int list) list" where
  "sim_cx74 inputs n_ticks =
     bindE (forE (cx74_tick inputs) (ticks n_ticks) (zeros n_ticks, 0, 0)) (\<lambda>(q, state, prev_clk).
     Inr [(''Q'', q), (''~Q'', complement q n_ticks)])"

definition cxf02_tick :: "(string \<rightharpoonup> int list) \<Rightarrow> int list \<Rightarrow> nat \<Rightarrow> py_error + int list" where
  "cxf02_tick inputs y t =
     bindE (read_input inputs ''CLK'' t) (\<lambda>clk.
     bindE (read_input inputs ''S'' t) (\<lambda>s.
     if \<not> truthy s then Inr (y[t := clk])
     else bindE (if 2 \<le> t then read_input inputs ''CLK'' (t - 2) else Inr 0) (\<lambda>delayed_clk.
          Inr (y[t := clk XOR delayed_clk]))))"

definition sim_cxf02 :: "(string \<rightharpoonup> int list) \<Rightarrow> int \<Rightarrow> py_error + (string \<times> int list) list" where
  "sim_cxf02 inputs n_ticks =
     bindE (forE (cxf02_tick inputs) (ticks n_ticks) (zeros n_ticks)) (\<lambda>y. Inr [(''Y'', y)])"

definition cx139_tick :: "(string \<rightharpoonup> int list) \<Rightarrow> int list \<times> int list \<times> int list \<times> int list \<Rightarrow>
    nat \<Rightarrow> py_error + int list \<times> int list \<times> int list \<times> int list" where
  "cx139_tick inputs ys t =
     (case ys of (y0, y1, y2, y3) \<Rightarrow>
      bindE (read_input inputs ''E'' t) (\<lambda>e.
      bindE (read_input inputs ''A0'' t) (\<lambda>a0.
      bindE (read_input inputs ''A1'' t) (\<lambda>a1.
      if truthy e
      then (let addr = a1 * 2 + a0 in
            if addr = 0 then Inr (y0[t := 1], y1, y2, y3)
            else if addr = 1 then Inr (y0, y1[t := 1], y2, y3)
            else if addr = 2 then Inr (y0, y1, y2[t := 1], y3)
            else if addr = 3 then Inr (y0, y1, y2, y3[t := 1])
            else Inr (y0, y1, y2, y3))
      else Inr (y0, y1, y2, y3)))))"

definition sim_cx139 :: "(string \<rightharpoonup> int list) \<Rightarrow> int \<Rightarrow> py_error + (string \<times> int list) list" where
  "sim_cx139 inputs n_ticks =
     bindE (forE (cx139_tick inputs) (ticks n_ticks)
              (zeros n_ticks, zeros n_ticks, zeros n_ticks, zeros n_ticks)) (\<lambda>(y0, y1, y2, y3).
     Inr [(''Y0'', y0), (''Y1'', y1), (''Y2'', y2), (''Y3'', y3)])"

definition cx83_tick :: "(string \<rightharpoonup> int list) \<Rightarrow> int list \<times> int list \<times> int list \<Rightarrow>
    nat \<Rightarrow> py_error + int list \<times> int list \<times> int list" where
  "cx83_tick inputs ss t =
     (case ss of (s0, s1, co) \<Rightarrow>
      bindE (read2 inputs ''A1'' ''A0'' (\<lambda>a1 a0. a1 * 2 + a0) t) (\<lambda>a.
      bindE (read2 inputs ''B1'' ''B0'' (\<lambda>b1 b0. b1 * 2 + b0) t) (\<lambda>b.
      bindE (read_input inputs ''CI'' t) (\<lambda>ci.
      let result = a + b + ci in
      Inr (s0[t := result AND 1], s1[t := drop_bit 1 result AND 1],
           co[t := drop_bit 2 result AND 1])))))"

definition sim_cx83 :: "(string \<rightharpoonup> int list) \<Rightarrow> int \<Rightarrow> py_error + (string \<times> int list) list" where
  "sim_cx83 inputs n_ticks =
     bindE (forE (cx83_tick inputs) (ticks n_ticks)
              (zeros n_ticks, zeros n_ticks, zeros n_ticks)) (\<lambda>(s0, s1, co).
     Inr [(''S0'', s0), (''S1'', s1), (''CO'', co)])"

definition cx93_tick :: "(string \<rightharpoonup> int list) \<Rightarrow> int list \<times> int \<times> int \<Rightarrow> nat \<Rightarrow>
    py_error + int list \<times> int \<times> int" where
  \<comment> \<open>the loop variables are \<open>(y, count, prev_clk)\<close>\<close>
  "cx93_tick inputs ycp t =
     (case ycp of (y, count, prev_clk) \<Rightarrow>
      bindE (read_input inputs ''CLK'' t) (\<lambda>clk.
      let count' = (if truthy clk \<and> \<not> truthy prev_clk then (count + 1) mod 4 else count)
      in Inr (y[t := (if 2 \<le> count' then 1 else 0)], count', clk)))"

definition sim_cx93 :: "(string \<rightharpoonup> int list) \<Rightarrow> int \<Rightarrow> py_error + (string \<times> int list) list" where
  "sim_cx93 inputs n_ticks =
     bindE (forE (cx93_tick inputs) (ticks n_ticks) (zeros n_ticks, 0, 0)) (\<lambda>(y, count, prev_clk).
     Inr [(''Y'', y)])"

definition cx153_tick :: "(string \<rightharpoonup> int list) \<Rightarrow> int list \<Rightarrow> nat \<Rightarrow> py_error + int list" where
  "cx153_tick inputs y t =
     bindE (read2 inputs ''S1'' ''S0'' (\<lambda>s1 s0. s1 * 2 + s0) t) (\<lambda>s.
     bindE (read_input inputs
              (if s = 0 then ''D0'' else if s = 1 then ''D1'' else if s = 2 then ''D2''
               else ''D3'') t) (\<lambda>d.
     Inr (y[t := d])))"

definition sim_cx153 :: "(string \<rightharpoonup> int list) \<Rightarrow> int \<Rightarrow> py_error + (string \<times> int list) list" where
  "sim_cx153 inputs n_ticks =
     bindE (forE (cx153_tick inputs) (ticks n_ticks) (zeros n_ticks)) (\<lambda>y. Inr [(''Y'', y)])"

definition cx161_tick :: "(string \<rightharpoonup> int list) \<Rightarrow>
    (int list \<times> int list \<times> int list \<times> int list) \<times> int \<times> int \<Rightarrow> nat \<Rightarrow>
    py_error + (int list \<times> int list \<times> int list \<times> int list) \<times> int \<times> int" where
  \<comment> \<open>the loop variables are \<open>((q0, q1, q2, q3), count, prev_clk)\<close>\<close>
  "cx161_tick inputs qcp t =
     (case qcp of ((q0, q1, q2, q3), count, prev_clk) \<Rightarrow>
      bindE (read_input inputs ''CLK'' t) (\<lambda>clk.
      bindE (read_input inputs ''CLR'' t) (\<lambda>clr.
      let count' = (if truthy clk \<and> \<not> truthy prev_clk
                    then (if truthy clr then 0 else (count + 1) mod 16)
                    else count)
      in Inr ((q0[t := count' AND 1], q1[t := drop_bit 1 count' AND 1],
               q2[t := drop_bit 2 count' AND 1], q3[t := drop_bit 3 count' AND 1]),
              count', clk))))"

definition sim_cx161 :: "(string \<rightharpoonup> int list) \<Rightarrow> int \<Rightarrow> py_error + (string \<times> int list) list" where
  "sim_cx161 inputs n_ticks =
     bindE (forE (cx161_tick inputs) (ticks n_ticks)
              ((zeros n_ticks, zeros n_ticks, zeros n_ticks, zeros n_ticks), 0, 0))
       (\<lambda>((q0, q1, q2, q3), count, prev_clk).
     Inr [(''Q0'', q0), (''Q1'', q1), (''Q2'', q2), (''Q3'', q3)])"

definition cx195_tick :: "(string \<rightharpoonup> int list) \<Rightarrow>
    (int list \<times> int list \<times> int list \<times> int list) \<times> (int \<times> int \<times> int \<times> int) \<times> int \<Rightarrow> nat \<Rightarrow>
    py_error + (int list \<times> int list \<times> int list \<times> int list) \<times> (int \<times> int \<times> int \<times> int) \<times> int" where
  \<comment> \<open>the loop variables are \<open>((q0, q1, q2, q3), reg, prev_clk)\<close>; \<open>reg\<close> always has four entries\<close>
  "cx195_tick inputs qrp t =
     (case qrp of ((q0, q1, q2, q3), (r0, r1, r2, r3), prev_clk) \<Rightarrow>
      bindE (read_input inputs ''CLK'' t) (\<lambda>clk.
      bindE (read_input inputs ''DIN'' t) (\<lambda>din.
      case (if truthy clk \<and> \<not> truthy prev_clk then (din, r0, r1, r2) else (r0, r1, r2, r3))
      of (r0', r1', r2', r3') \<Rightarrow>
        Inr ((q0[t := r0'], q1[t := r1'], q2[t := r2'], q3[t := r3']),
             (r0', r1', r2', r3'), clk))))"

definition sim_cx195 :: "(string \<rightharpoonup> int list) \<Rightarrow> int \<Rightarrow> py_error + (string \<times> int list) list" where
  "sim_cx195 inputs n_ticks =
     bindE (forE (cx195_tick inputs) (ticks n_ticks)
              ((zeros n_ticks, zeros n_ticks, zeros n_ticks, zeros n_ticks), (0, 0, 0, 0), 0))
       (\<lambda>((q0, q1, q2, q3), reg, prev_clk).
     Inr [(''Q0'', q0), (''Q1'', q1), (''Q2'', q2), (''Q3'', q3)])"

text \<open>
  The RAM. One iteration reads the six signals, then writes and reads the memory:
  \<^verbatim>\<open>
  addr = inputs['A2'][t] * 4 + inputs['A1'][t] * 2 + inputs['A0'][t]
  we = inputs['WE'][t]; re = inputs['RE'][t]; d_in = inputs['D_in'][t]
  if we and not re: memory[addr] = d_in
  if re and not we: d_out[t] = memory[addr]
  \<close>
  \<open>memory[addr]\<close> is Python indexing, so an address outside the list raises.
\<close>

definition cx6116_access :: "int list \<times> int list \<Rightarrow> nat \<Rightarrow> int \<Rightarrow> int \<Rightarrow> int \<Rightarrow> int \<Rightarrow>
    py_error + int list \<times> int list" where
  \<comment> \<open>the two \<open>if\<close> statements of one iteration; the loop variables are \<open>(memory, d_out)\<close>\<close>
  "cx6116_access md t addr we re d_in =
     (case md of (memory, d_out) \<Rightarrow>
      bindE (if truthy we \<and> \<not> truthy re then py_setitem memory addr d_in else Inr memory)
        (\<lambda>memory'.
      bindE (if truthy re \<and> \<not> truthy we
             then bindE (py_index memory' addr) (\<lambda>v. Inr (d_out[t := v]))
             else Inr d_out) (\<lambda>d_out'.
      Inr (memory', d_out'))))"

definition cx6116_addr :: "int \<Rightarrow> int \<Rightarrow> int \<Rightarrow> int" where
  "cx6116_addr a2 a1 a0 = a2 * 4 + a1 * 2 + a0"

definition cx6116_tick :: "(string \<rightharpoonup> int list) \<Rightarrow> int list \<times> int list \<Rightarrow> nat \<Rightarrow>
    py_error + int list \<times> int list" where
  "cx6116_tick inputs md t =
     bindE (read_input inputs ''A2'' t) (\<lambda>a2.
     bindE (read_input inputs ''A1'' t) (\<lambda>a1.
     bindE (read_input inputs ''A0'' t) (\<lambda>a0.
     bindE (read_input inputs ''WE'' t) (\<lambda>we.
     bindE (read_input inputs ''RE'' t) (\<lambda>re.
     bindE (read_input inputs ''D_in'' t) (\<lambda>d_in.
     cx6116_access md t (cx6116_addr a2 a1 a0) we re d_in))))))"

definition sim_cx6116 :: "(string \<rightharpoonup> int list) \<Rightarrow> int \<Rightarrow> py_error + (string \<times> int list) list" where
  "sim_cx6116 inputs n_ticks =
     bindE (forE (cx6116_tick inputs) (ticks n_ticks) (replicate 8 0, zeros n_ticks))
       (\<lambda>(memory, d_out). Inr [(''D_out'', d_out)])"

definition cx181_tick :: "(string \<rightharpoonup> int list) \<Rightarrow> int list \<times> int list \<times> int list \<Rightarrow>
    nat \<Rightarrow> py_error + int list \<times> int list \<times> int list" where
  "cx181_tick inputs yz t =
     (case yz of (y0, y1, z) \<Rightarrow>
      bindE (read2 inputs ''A1'' ''A0'' (\<lambda>a1 a0. a1 * 2 + a0) t) (\<lambda>a.
      bindE (read2 inputs ''B1'' ''B0'' (\<lambda>b1 b0. b1 * 2 + b0) t) (\<lambda>b.
      bindE (read2 inputs ''F1'' ''F0'' (\<lambda>f1 f0. f1 * 2 + f0) t) (\<lambda>f.
      let result = (if f = 0 then a AND b
                    else if f = 1 then a OR b
                    else if f = 2 then NOT a AND 3
                    else a XOR b)
      in Inr (y0[t := result AND 1], y1[t := drop_bit 1 result AND 1],
              z[t := (if result = 0 then 1 else 0)])))))"

definition sim_cx181 :: "(string \<rightharpoonup> int list) \<Rightarrow> int \<Rightarrow> py_error + (string \<times> int list) list" where
  "sim_cx181 inputs n_ticks =
     bindE (forE (cx181_tick inputs) (ticks n_ticks)
              (zeros n_ticks, zeros n_ticks, zeros n_ticks)) (\<lambda>(y0, y1, z).
     Inr [(''Y0'', y0), (''Y1'', y1), (''Z'', z)])"

section \<open>The catalog: \<open>LEVEL_CONFIG\<close>\<close>

text \<open>
  One entry per component: its simulation function, declared inputs and outputs, the pin
  numbers of its signals, and the timing hints where the entry sets them (the key
  \<open>bidirectional\<close> of CX6116 is never read and is left out). The dicts are association
  lists looked up with \<open>map_of\<close>; no key occurs twice.
\<close>

record config =
  cfg_sim :: "(string \<rightharpoonup> int list) \<Rightarrow> int \<Rightarrow> py_error + (string \<times> int list) list"
  cfg_inputs :: "string list"
  cfg_outputs :: "string list"
  cfg_pin_map :: "(string \<times> int) list"
  cfg_stability_ticks :: "int option"
  cfg_warmup_ticks :: "int option"

definition LEVEL_CONFIG :: "(string \<times> config) list" where
  "LEVEL_CONFIG =
    [
     (''CX04'', \<lparr>cfg_sim = sim_cx04,
        cfg_inputs = [''A'', ''B'', ''C'', ''D''],
        cfg_outputs = [''~A'', ''~B'', ''~C'', ''~D''],
        cfg_pin_map = [(''A'', 1), (''B'', 2), (''C'', 3), (''D'', 4), (''~A'', 7), (''~B'', 8), (''~C'', 9), (''~D'', 10)],
        cfg_stability_ticks = None, cfg_warmup_ticks = None\<rparr>),
     (''CX08'', \<lparr>cfg_sim = sim_cx08,
        cfg_inputs = [''A'', ''B'', ''C'', ''D''],
        cfg_outputs = [''Y0'', ''Y1''],
        cfg_pin_map = [(''A'', 1), (''B'', 2), (''C'', 3), (''D'', 4), (''Y0'', 7), (''Y1'', 8)],
        cfg_stability_ticks = None, cfg_warmup_ticks = None\<rparr>),
     (''CX02'', \<lparr>cfg_sim = sim_cx02,
        cfg_inputs = [''A'', ''B'', ''C'', ''D'', ''E'', ''F''],
        cfg_outputs = [''Y0'', ''Y1'', ''Y2''],
        cfg_pin_map = [(''A'', 1), (''B'', 2), (''C'', 3), (''D'', 4), (''E'', 9), (''F'', 10), (''Y0'', 7), (''Y1'', 8), (''Y2'', 11)],
        cfg_stability_ticks = None, cfg_warmup_ticks = None\<rparr>),
     (''CX00'', \<lparr>cfg_sim = sim_cx00,
        cfg_inputs = [''A'', ''B'', ''C'', ''D'', ''E'', ''F''],
        cfg_outputs = [''Y0'', ''Y1'', ''Y2''],
        cfg_pin_map = [(''A'', 1), (''B'', 2), (''C'', 3), (''D'', 4), (''E'', 9), (''F'', 10), (''Y0'', 7), (''Y1'', 8), (''Y2'', 11)],
        cfg_stability_ticks = None, cfg_warmup_ticks = None\<rparr>),
     (''CXR01'', \<lparr>cfg_sim = sim_cxr01,
        cfg_inputs = [],
        cfg_outputs = [''~R''],
        cfg_pin_map = [(''~R'', 7)],
        cfg_stability_ticks = None, cfg_warmup_ticks = None\<rparr>),
     (''CX279'', \<lparr>cfg_sim = sim_cx279,
        cfg_inputs = [''S'', ''R''],
        cfg_outputs = [''Q'', ''~Q''],
        cfg_pin_map = [(''S'', 1), (''R'', 2), (''Q'', 7), (''~Q'', 8)],
        cfg_stability_ticks = Some 2, cfg_warmup_ticks = Some 2\<rparr>),
     (''CX279E'', \<lparr>cfg_sim = sim_cx279e,
        cfg_inputs = [''S'', ''R'', ''E''],
        cfg_outputs = [''Q'', ''~Q''],
        cfg_pin_map = [(''S'', 1), (''R'', 2), (''E'', 3), (''Q'', 7), (''~Q'', 8)],
        cfg_stability_ticks = Some 2, cfg_warmup_ticks = Some 2\<rparr>),
     (''CX556'', \<lparr>cfg_sim = sim_cx556,
        cfg_inputs = [],
        cfg_outputs = [''CL1'', ''CL2''],
        cfg_pin_map = [(''CL1'', 4), (''CL2'', 8)],
        cfg_stability_ticks = Some 0, cfg_warmup_ticks = None\<rparr>),
     (''CX74'', \<lparr>cfg_sim = sim_cx74,
        cfg_inputs = [''D'', ''CLK''],
        cfg_outputs = [''Q'', ''~Q''],
        cfg_pin_map = [(''D'', 1), (''CLK'', 2), (''Q'', 7), (''~Q'', 8)],
        cfg_stability_ticks = Some 3, cfg_warmup_ticks = None\<rparr>),
     (''CXF02'', \<lparr>cfg_sim = sim_cxf02,
        cfg_inputs = [''CLK'', ''S''],
        cfg_outputs = [''Y''],
        cfg_pin_map = [(''CLK'', 1), (''S'', 2), (''Y'', 7)],
        cfg_stability_ticks = Some 0, cfg_warmup_ticks = None\<rparr>),
     (''CX139'', \<lparr>cfg_sim = sim_cx139,
        cfg_inputs = [''A0'', ''A1'', ''E''],
        cfg_outputs = [''Y0'', ''Y1'', ''Y2'', ''Y3''],
        cfg_pin_map = [(''A0'', 1), (''A1'', 2), (''E'', 3), (''Y0'', 7), (''Y1'', 8), (''Y2'', 9), (''Y3'', 10)],
        cfg_stability_ticks = Some 2, cfg_warmup_ticks = None\<rparr>),
     (''CX83'', \<lparr>cfg_sim = sim_cx83,
        cfg_inputs = [''A0'', ''A1'', ''B0'', ''B1'', ''CI''],
        cfg_outputs = [''S0'', ''S1'', ''CO''],
        cfg_pin_map = [(''A0'', 1), (''A1'', 2), (''B0'', 3), (''B1'', 4), (''CI'', 5), (''S0'', 7), (''S1'', 8), (''CO'', 9)],
        cfg_stability_ticks = Some 4, cfg_warmup_ticks = None\<rparr>),
     (''CX93'', \<lparr>cfg_sim = sim_cx93,
        cfg_inputs = [''CLK''],
        cfg_outputs = [''Y''],
        cfg_pin_map = [(''CLK'', 1), (''Y'', 7)],
        cfg_stability_ticks = Some 2, cfg_warmup_ticks = None\<rparr>),
     (''CX153'', \<lparr>cfg_sim = sim_cx153,
        cfg_inputs = [''D0'', ''D1'', ''D2'', ''D3'', ''S0'', ''S1''],
        cfg_outputs = [''Y''],
        cfg_pin_map = [(''D0'', 1), (''D1'', 2), (''D2'', 3), (''D3'', 4), (''S0'', 6), (''S1'', 7), (''Y'', 8)],
        cfg_stability_ticks = Some 2, cfg_warmup_ticks = None\<rparr>),
     (''CX161'', \<lparr>cfg_sim = sim_cx161,
        cfg_inputs = [''CLK'', ''CLR''],
        cfg_outputs = [''Q0'', ''Q1'', ''Q2'', ''Q3''],
        cfg_pin_map = [(''CLK'', 1), (''CLR'', 2), (''Q0'', 7), (''Q1'', 8), (''Q2'', 9), (''Q3'', 10)],
        cfg_stability_ticks = Some 2, cfg_warmup_ticks = None\<rparr>),
     (''CX195'', \<lparr>cfg_sim = sim_cx195,
        cfg_inputs = [''DIN'', ''CLK''],
        cfg_outputs = [''Q0'', ''Q1'', ''Q2'', ''Q3''],
        cfg_pin_map = [(''DIN'', 1), (''CLK'', 2), (''Q0'', 7), (''Q1'', 8), (''Q2'', 9), (''Q3'', 10)],
        cfg_stability_ticks = Some 2, cfg_warmup_ticks = None\<rparr>),
     (''CX6116'', \<lparr>cfg_sim = sim_cx6116,
        cfg_inputs = [''A0'', ''A1'', ''A2'', ''WE'', ''RE'', ''D_in''],
        cfg_outputs = [''D_out''],
        cfg_pin_map = [(''A0'', 1), (''A1'', 2), (''A2'', 3), (''WE'', 4), (''RE'', 5), (''D_in'', 7), (''D_out'', 7)],
        cfg_stability_ticks = Some 2, cfg_warmup_ticks = None\<rparr>),
     (''CX181'', \<lparr>cfg_sim = sim_cx181,
        cfg_inputs = [''A0'', ''A1'', ''B0'', ''B1'', ''F0'', ''F1''],
        cfg_outputs = [''Y0'', ''Y1'', ''Z''],
        cfg_pin_map = [(''A0'', 1), (''A1'', 2), (''B0'', 3), (''B1'', 4), (''F0'', 6), (''F1'', 7), (''Y0'', 8), (''Y1'', 9), (''Z'', 10)],
        cfg_stability_ticks = Some 2, cfg_warmup_ticks = None\<rparr>)
    ]"

section \<open>Processing a level file: \<open>process_level\<close> and \<open>main\<close>\<close>

text \<open>
  A level file is a JSON document; the fields \<open>process_level\<close> reads are its \<open>name\<close>
  (the component identifier, the empty string when absent), its \<open>pins\<close> (a list of pin
  names) and its \<open>waveforms\<close>. A waveform entry has a \<open>pin_index\<close> and the optional
  keys \<open>is_input\<close>, \<open>values\<close> and \<open>test\<close>, which the source reads with
  \<open>wf.get(key, default)\<close>; an absent key is \<open>None\<close> here.
\<close>

record waveform =
  wf_pin_index :: "int option"
  wf_is_input :: "bool option"
  wf_values :: "string option"
  wf_test :: "string option"

record level =
  lv_name :: string
  lv_pins :: "string list"
  lv_waveforms :: "waveform list"

text \<open>
  What \<open>process_level\<close> and \<open>main\<close> print, one constructor per \<open>print\<close> call. The
  level file appears by its file name (\<open>level_path.name\<close>), an exception as itself
  (the source prints its message and a traceback). The layout of the lines and the
  truncation of long waveforms to 50 characters are not modelled.
\<close>

datatype report =
    NoConfig string string
  | SimulationError string py_error
  | Changed string string "int option" string string string
  | NoLevelFiles
  | Processing nat
  | DryRun
  | Summary bool nat

text \<open>
  The outcome of one call of \<open>process_level\<close>: the boolean it returns, what it printed,
  and the document it wrote back to the level file, if it wrote.
\<close>

record outcome =
  returned :: bool
  printed :: "report list"
  written :: "level option"

function nat_str :: "nat \<Rightarrow> string" where
  "nat_str n = (if n < 10 then [''0123456789'' ! n]
                else nat_str (n div 10) @ [''0123456789'' ! (n mod 10)])"
  by pat_completeness auto
termination
  by (relation "measure id") auto

declare nat_str.simps [simp del]

definition py_str :: "int \<Rightarrow> string" where
  \<comment> \<open>\<open>str(v)\<close> for an integer\<close>
  "py_str v = (if v < 0 then CHR ''-'' # nat_str (nat (- v)) else nat_str (nat v))"

definition index_signals :: "(string \<times> int) list \<Rightarrow> string list \<Rightarrow> (int \<rightharpoonup> string)" where
  \<comment> \<open>the reverse map \<open>idx_to_input\<close> / \<open>idx_to_output\<close>: a later signal overwrites an earlier
      one on the same pin\<close>
  "index_signals pin_map signals =
     fold (\<lambda>sig m. case map_of pin_map sig of Some p \<Rightarrow> m(p \<mapsto> sig) | None \<Rightarrow> m)
          signals Map.empty"

definition pin_name :: "string list \<Rightarrow> int option \<Rightarrow> py_error + string option" where
  \<comment> \<open>\<open>pins[pin_idx] if pin_idx < len(pins) else None\<close>; comparing \<open>None\<close> raises\<close>
  "pin_name pins pin_idx =
     (case pin_idx of
        None \<Rightarrow> Inl TypeError
      | Some p \<Rightarrow> if p < int (length pins) then bindE (py_index pins p) (\<lambda>s. Inr (Some s))
                  else Inr None)"

definition signal_name :: "(int \<rightharpoonup> string) \<Rightarrow> string list \<Rightarrow> int option \<Rightarrow>
    py_error + string option" where
  \<comment> \<open>the name found through the catalog's pin map, else (\<open>if not sig_name\<close>) the pin's name\<close>
  "signal_name idx_to_sig pins pin_idx =
     (case (case pin_idx of None \<Rightarrow> None | Some p \<Rightarrow> idx_to_sig p) of
        Some s \<Rightarrow> if s \<noteq> [] then Inr (Some s) else pin_name pins pin_idx
      | None \<Rightarrow> pin_name pins pin_idx)"

definition collect_input :: "(int \<rightharpoonup> string) \<Rightarrow> string list \<Rightarrow>
    (string \<rightharpoonup> int list) \<times> int \<Rightarrow> waveform \<Rightarrow> py_error + (string \<rightharpoonup> int list) \<times> int" where
  \<comment> \<open>one iteration of the first loop; the loop variables are \<open>(inputs, n_ticks)\<close>\<close>
  "collect_input idx_to_input pins st entry =
     (if \<not> (case wf_is_input entry of None \<Rightarrow> True | Some b \<Rightarrow> b) then Inr st
      else bindE (signal_name idx_to_input pins (wf_pin_index entry)) (\<lambda>sig_name.
        case sig_name of
          None \<Rightarrow> Inr st
        | Some s \<Rightarrow>
            if s = ''vcc'' \<or> s = ''nc'' then Inr st
            else (let values_str = (case wf_values entry of None \<Rightarrow> [] | Some v \<Rightarrow> v) in
                  Inr ((fst st)(s \<mapsto> map (\<lambda>c. if c = CHR ''1'' then 1 else 0) values_str),
                       int (length values_str)))))"

definition update_output :: "string \<Rightarrow> (int \<rightharpoonup> string) \<Rightarrow> string list \<Rightarrow>
    (string \<times> int list) list \<Rightarrow> int \<Rightarrow> int \<Rightarrow>
    waveform list \<times> bool \<times> report list \<Rightarrow> waveform \<Rightarrow>
    py_error + waveform list \<times> bool \<times> report list" where
  \<comment> \<open>one iteration of the second loop; the loop variables are the waveform entries already
      visited (as they now stand), \<open>modified\<close> and the lines printed\<close>
  "update_output fname idx_to_output pins outputs stability_ticks warmup_ticks st entry =
     (case st of (visited, modified, lines) \<Rightarrow>
      if (case wf_is_input entry of None \<Rightarrow> True | Some b \<Rightarrow> b)
      then Inr (visited @ [entry], modified, lines)
      else bindE (signal_name idx_to_output pins (wf_pin_index entry)) (\<lambda>out_name.
        case out_name of
          None \<Rightarrow> Inr (visited @ [entry], modified, lines)
        | Some name \<Rightarrow>
           (case map_of outputs name of
              None \<Rightarrow> Inr (visited @ [entry], modified, lines)
            | Some new_values \<Rightarrow>
               (let new_values_str = concat (map py_str new_values);
                    new_test = generate_test_vector new_values stability_ticks warmup_ticks;
                    old_values = (case wf_values entry of None \<Rightarrow> [] | Some v \<Rightarrow> v);
                    old_test = (case wf_test entry of None \<Rightarrow> [] | Some v \<Rightarrow> v)
                in if old_values \<noteq> new_values_str \<or> old_test \<noteq> new_test
                   then Inr (visited @ [entry\<lparr>wf_values := Some new_values_str,
                                            wf_test := Some new_test\<rparr>],
                             True,
                             lines @ [Changed fname name (wf_pin_index entry) old_values
                                        new_values_str new_test])
                   else Inr (visited @ [entry], modified, lines)))))"

definition process_level :: "string \<times> level \<Rightarrow> bool \<Rightarrow> py_error + outcome" where
  \<comment> \<open>the level file is its name and its parsed content; \<open>Inl\<close> is an exception that leaves
      \<open>process_level\<close>\<close>
  "process_level level_file dry_run =
     (case level_file of (fname, data) \<Rightarrow>
      case map_of LEVEL_CONFIG (lv_name data) of
        None \<Rightarrow> Inr \<lparr>returned = False, printed = [NoConfig fname (lv_name data)],
                     written = None\<rparr>
      | Some config \<Rightarrow>
         bindE (forE (collect_input (index_signals (cfg_pin_map config) (cfg_inputs config))
                        (lv_pins data))
                  (lv_waveforms data) (Map.empty, 64)) (\<lambda>(inputs, n_ticks).
         case cfg_sim config inputs n_ticks of
           Inl e \<Rightarrow> Inr \<lparr>returned = False, printed = [SimulationError fname e],
                         written = None\<rparr>
         | Inr outputs \<Rightarrow>
            bindE (forE (update_output fname
                           (index_signals (cfg_pin_map config) (cfg_outputs config))
                           (lv_pins data) outputs
                           (case cfg_stability_ticks config of None \<Rightarrow> 1 | Some v \<Rightarrow> v)
                           (case cfg_warmup_ticks config of None \<Rightarrow> 0 | Some v \<Rightarrow> v))
                     (lv_waveforms data) ([], False, [])) (\<lambda>(wfs, modified, lines).
            Inr \<lparr>returned = modified, printed = lines,
                 written = (if modified \<and> \<not> dry_run
                            then Some (data\<lparr>lv_waveforms := wfs\<rparr>) else None)\<rparr>)))"

definition main_step :: "bool \<Rightarrow> nat \<times> report list \<times> (string \<times> level) list \<Rightarrow>
    string \<times> level \<Rightarrow> py_error + nat \<times> report list \<times> (string \<times> level) list" where
  \<comment> \<open>one iteration of the loop of \<open>main\<close>; the loop variables are \<open>modified_count\<close>, the
      lines printed so far and the files written so far\<close>
  "main_step dry_run st level_file =
     (case st of (modified_count, lines, files) \<Rightarrow>
      bindE (process_level level_file dry_run) (\<lambda>oc.
      Inr (if returned oc then modified_count + 1 else modified_count,
           lines @ printed oc,
           (case written oc of None \<Rightarrow> files | Some d \<Rightarrow> files @ [(fst level_file, d)]))))"

definition main :: "(string \<times> level) list \<Rightarrow> bool \<Rightarrow>
    py_error + int \<times> report list \<times> (string \<times> level) list" where
  \<comment> \<open>the exit status, the lines printed and the files written; \<open>Inl\<close> is an uncaught
      exception, which ends the program\<close>
  "main level_files dry_run =
     (if level_files = [] then Inr (1, [NoLevelFiles], [])
      else bindE (forE (main_step dry_run) level_files
                    (0, Processing (length level_files) # (if dry_run then [DryRun] else []), []))
             (\<lambda>(modified_count, lines, files).
                Inr (0, lines @ [Summary dry_run modified_count], files)))"

section \<open>Properties of the synthesizer\<close>

lemma mark_window_length [simp]: "length (mark_window i s n test) = length test"
proof -
  have "length (fold (\<lambda>j t. if i + j < n then t[i + j := CHR ''x''] else t) js test)
        = length test" for js
    by (induction js arbitrary: test) auto
  then show ?thesis by (simp add: mark_window_def)
qed

lemma fold_window_nth:
  "k < length test \<Longrightarrow>
   fold (\<lambda>j t. if i + j < n then t[i + j := c] else t) js test ! k
     = (if (\<exists>j\<in>set js. i + j = k \<and> k < n) then c else test ! k)"
proof (induction js arbitrary: test)
  case Nil
  then show ?case by simp
next
  case (Cons j js)
  then show ?case by (auto simp: nth_list_update)
qed

lemma mark_window_nth:
  assumes "k < length test"
  shows "mark_window i s n test ! k
           = (if in_window i s k \<and> k < n then CHR ''x'' else test ! k)"
proof -
  have "(\<exists>j\<in>set [0..<nat s]. i + j = k \<and> k < n) \<longleftrightarrow> in_window i s k \<and> k < n"
  proof
    assume "\<exists>j\<in>set [0..<nat s]. i + j = k \<and> k < n"
    then obtain j where "j < nat s" "i + j = k" "k < n" by auto
    then show "in_window i s k \<and> k < n" by (auto simp: in_window_def)
  next
    assume h: "in_window i s k \<and> k < n"
    then have "k - i < nat s" "i + (k - i) = k" by (auto simp: in_window_def)
    with h show "\<exists>j\<in>set [0..<nat s]. i + j = k \<and> k < n" by auto
  qed
  with assms show ?thesis
    unfolding mark_window_def by (simp only: fold_window_nth)
qed

lemma mark_warmup_length [simp]: "length (mark_warmup w n test) = length test"
proof -
  have "length (fold (\<lambda>i t. t[i := CHR ''x'']) js test) = length test" for js
    by (induction js arbitrary: test) auto
  then show ?thesis by (simp add: mark_warmup_def)
qed

lemma fold_warmup_nth:
  "k < length test \<Longrightarrow>
   fold (\<lambda>i t. t[i := c]) js test ! k = (if k \<in> set js then c else test ! k)"
  by (induction js arbitrary: test) (auto simp: nth_list_update)

lemma mark_warmup_nth:
  assumes "k < length test" "length test = n"
  shows "mark_warmup w n test ! k = (if int k < w then CHR ''x'' else test ! k)"
proof -
  have "k \<in> set [0..<nat (min w (int n))] \<longleftrightarrow> int k < w"
    using assms by auto
  with assms(1) show ?thesis
    unfolding mark_warmup_def by (simp only: fold_warmup_nth)
qed

lemma fold_transitions_length:
  "length (fold (\<lambda>i t. if P i then mark_window i s n t else t) is test) = length test"
  by (induction "is" arbitrary: test) auto

lemma mark_transitions_length [simp]:
  "length (mark_transitions values s test) = length test"
  by (simp add: mark_transitions_def fold_transitions_length)

lemma fold_transitions_nth:
  "k < length test \<Longrightarrow>
   fold (\<lambda>i t. if P i then mark_window i s n t else t) is test ! k
     = (if (\<exists>i\<in>set is. P i \<and> in_window i s k \<and> k < n) then CHR ''x'' else test ! k)"
proof (induction "is" arbitrary: test)
  case Nil
  then show ?case by simp
next
  case (Cons i "is")
  then show ?case by (auto simp: mark_window_nth)
qed

lemma mark_transitions_nth:
  assumes "k < length test" "length test = length values"
  shows "mark_transitions values s test ! k
           = (if (\<exists>i\<in>set (transitions values). in_window i s k) then CHR ''x''
              else test ! k)"
proof -
  have "(\<exists>i\<in>set [1..<length values].
            values ! i \<noteq> values ! (i - 1) \<and> in_window i s k \<and> k < length values)
        \<longleftrightarrow> (\<exists>i\<in>set (transitions values). in_window i s k)"
    using assms by (auto simp: transitions_def)
  with assms(1) show ?thesis
    unfolding mark_transitions_def by (simp only: fold_transitions_nth)
qed

lemma generate_test_vector_length:
  "length (generate_test_vector values s w) = length values"
  by (simp add: generate_test_vector_def)

lemma generate_test_vector_nth:
  assumes "k < length values"
  shows "generate_test_vector values s w ! k
           = (if int k < w \<or> (\<exists>i\<in>set (transitions values). in_window i s k)
              then CHR ''x'' else CHR ''?'')"
  using assms
  by (simp add: generate_test_vector_def mark_transitions_nth mark_warmup_nth)

text \<open>
  Claim C4. For every waveform of length \<open>N\<close> and all timing hints the synthesized
  test vector has length exactly \<open>N\<close>; a waveform of length 0 yields the empty mask.
\<close>

theorem generate_test_vector_length_invariant:
  "length (generate_test_vector values stability_ticks warmup_ticks) = length values
   \<and> generate_test_vector [] stability_ticks warmup_ticks = []"
proof
  show "length (generate_test_vector values stability_ticks warmup_ticks) = length values"
    by (rule generate_test_vector_length)
  have "length (generate_test_vector [] stability_ticks warmup_ticks) = length ([] :: int list)"
    by (rule generate_test_vector_length)
  then show "generate_test_vector [] stability_ticks warmup_ticks = []"
    by simp
qed

text \<open>
  Claim C3. With \<open>warmup_ticks = w > 0\<close>, every index below \<open>w\<close> (and below the
  waveform's length) carries the don't-care symbol \<open>x\<close>, whatever the waveform holds.
\<close>

theorem generate_test_vector_warmup_dominance:
  assumes "0 < warmup_ticks" and "int k < warmup_ticks" and "k < length values"
  shows "generate_test_vector values stability_ticks warmup_ticks ! k = CHR ''x''"
  using assms by (simp add: generate_test_vector_nth)

theorem generate_test_vector_warmup_dominance_witness:
  "(0::int) < 2 \<and> int 1 < 2 \<and> 1 < length [1, 1, 0 :: int]
   \<and> generate_test_vector [1, 1, 0] 1 2 ! 1 = CHR ''x''"
  using generate_test_vector_warmup_dominance [of 2 1 "[1, 1, 0]" 1] by simp

text \<open>
  Claim C1, as the spec words it: outside the warm-up window and every stability window
  the symbol is the waveform's own value, defined-0 or defined-1. The source never writes
  a value into the mask: every entry starts as the marker \<open>?\<close> and is only ever
  replaced by \<open>x\<close>. A one-tick waveform holding 0 and one holding 1 (no warm-up, no
  transition) get the same mask \<open>?\<close>, so the symbol does not tell the value.
\<close>

theorem generate_test_vector_symbol_is_not_the_value:
  "transitions [0] = [] \<and> transitions [1] = []
   \<and> generate_test_vector [0] 1 0 = ''?'' \<and> generate_test_vector [1] 1 0 = ''?''"
  by (simp add: transitions_def generate_test_vector_def mark_transitions_def
      mark_warmup_def)

text \<open>
  Claim C1, amended. Every tick index that lies neither in the warm-up window
  \<open>[0, warmup_ticks)\<close> nor inside the stability window of any transition carries the
  marker \<open>?\<close> (compare against the waveform), the same for value 0 and value 1, and
  never the don't-care symbol \<open>x\<close>.
\<close>

theorem generate_test_vector_stable_outside_windows:
  assumes "k < length values"
    and "\<not> int k < warmup_ticks"
    and "\<forall>i\<in>set (transitions values). \<not> in_window i stability_ticks k"
  shows "generate_test_vector values stability_ticks warmup_ticks ! k = CHR ''?''
         \<and> generate_test_vector values stability_ticks warmup_ticks ! k \<noteq> CHR ''x''"
  using assms by (simp add: generate_test_vector_nth)

theorem generate_test_vector_stable_outside_windows_witness:
  "4 < length [0, 0, 1, 1, 1 :: int] \<and> \<not> int 4 < 1
   \<and> transitions [0, 0, 1, 1, 1] = [2] \<and> \<not> in_window 2 2 4
   \<and> generate_test_vector [0, 0, 1, 1, 1] 2 1 ! 4 = CHR ''?''
   \<and> generate_test_vector [0, 0, 1, 1, 1] 2 1 ! 4 \<noteq> CHR ''x''"
proof -
  have t: "transitions [0, 0, 1, 1, 1] = [2]"
    by code_simp
  have h: "\<forall>i\<in>set (transitions [0, 0, 1, 1, 1]). \<not> in_window i 2 4"
    by (simp add: t in_window_def)
  show ?thesis
    using t h generate_test_vector_stable_outside_windows [of 4 "[0, 0, 1, 1, 1]" 1 2]
    by (simp add: in_window_def)
qed

text \<open>
  Claim C2, as stated, includes \<open>stability_ticks = 0\<close> (the catalog's CX556 and CXF02).
  There the inner loop \<open>for j in range(stability_ticks)\<close> runs zero times: the waveform
  \<open>[0, 1]\<close> has a transition at index 1, and the mask keeps \<open>?\<close> at index 1.
\<close>

theorem generate_test_vector_zero_stability_counterexample:
  "[0, 1 :: int] ! 1 \<noteq> [0, 1] ! (1 - 1) \<and> generate_test_vector [0, 1] 0 0 ! 1 = CHR ''?''
   \<and> generate_test_vector [0, 1] 0 0 ! 1 \<noteq> CHR ''x''"
  by (simp add: generate_test_vector_def mark_transitions_def mark_warmup_def
      mark_window_def)

text \<open>
  Claim C2, amended. For a transition at \<open>i \<ge> 1\<close> (the waveform's value at \<open>i\<close> differs
  from its value at \<open>i - 1\<close>), every index \<open>i + j\<close> with \<open>0 \<le> j < stability_ticks\<close> that
  is below the waveform's end is don't-care; so \<open>i\<close> itself is don't-care exactly when
  \<open>stability_ticks \<ge> 1\<close>. Transitions are read from the waveform, so a transition inside
  another's window still forces its own full window. With \<open>stability_ticks \<le> 0\<close> a
  transition forces nothing: the symbol at \<open>i\<close> is don't-care only when \<open>i\<close> is a
  warm-up tick.
\<close>

theorem generate_test_vector_transition_coverage:
  assumes "1 \<le> i" and "i < length values" and "values ! i \<noteq> values ! (i - 1)"
  shows "(1 \<le> stability_ticks \<longrightarrow>
            generate_test_vector values stability_ticks warmup_ticks ! i = CHR ''x'')
       \<and> (\<forall>j. int j < stability_ticks \<and> i + j < length values \<longrightarrow>
            generate_test_vector values stability_ticks warmup_ticks ! (i + j) = CHR ''x'')
       \<and> (stability_ticks \<le> 0 \<longrightarrow>
            generate_test_vector values stability_ticks warmup_ticks ! i
              = (if int i < warmup_ticks then CHR ''x'' else CHR ''?''))"
proof -
  have mem: "i \<in> set (transitions values)"
    using assms by (simp add: transitions_def)
  have a: "generate_test_vector values stability_ticks warmup_ticks ! (i + j) = CHR ''x''"
    if "int j < stability_ticks" "i + j < length values" for j
  proof -
    have "in_window i stability_ticks (i + j)"
      using that by (simp add: in_window_def)
    with mem that(2) show ?thesis
      by (auto simp: generate_test_vector_nth)
  qed
  have b: "generate_test_vector values stability_ticks warmup_ticks ! i = CHR ''x''"
    if "1 \<le> stability_ticks"
    using a [of 0] that assms(2) by simp
  have c: "generate_test_vector values stability_ticks warmup_ticks ! i
             = (if int i < warmup_ticks then CHR ''x'' else CHR ''?'')"
    if "stability_ticks \<le> 0"
  proof -
    have "\<not> in_window i' stability_ticks i" for i'
      using that by (auto simp: in_window_def)
    then show ?thesis
      using assms(2) by (simp add: generate_test_vector_nth)
  qed
  from a b c show ?thesis by blast
qed

theorem generate_test_vector_transition_coverage_witness:
  "(1::nat) \<le> 1 \<and> 1 < length [0, 1, 0, 0, 0 :: int]
   \<and> [0, 1, 0, 0, 0 :: int] ! 1 \<noteq> [0, 1, 0, 0, 0] ! (1 - 1)
   \<and> generate_test_vector [0, 1, 0, 0, 0] 3 0 ! 1 = CHR ''x''
   \<and> generate_test_vector [0, 1, 0, 0, 0] 3 0 ! (1 + 2) = CHR ''x''
   \<and> generate_test_vector [0, 1, 0, 0, 0] 0 0 ! 1 = CHR ''?''"
proof -
  have h: "[0, 1, 0, 0, 0 :: int] ! 1 \<noteq> [0, 1, 0, 0, 0] ! (1 - 1)" by simp
  note r = generate_test_vector_transition_coverage [of 1 "[0, 1, 0, 0, 0]", OF _ _ h]
  have "generate_test_vector [0, 1, 0, 0, 0] 3 0 ! 1 = CHR ''x''"
    using r [of 3 0] by simp
  moreover have "generate_test_vector [0, 1, 0, 0, 0] 3 0 ! (1 + 2) = CHR ''x''"
    using r [of 3 0] by simp
  moreover have "generate_test_vector [0, 1, 0, 0, 0] 0 0 ! 1 = CHR ''?''"
    using r [of 0 0] by simp
  ultimately show ?thesis by simp
qed

end
